theory Spec2Isabelle
  imports Complex_Main
begin

section \<open>The ChittyTrust scoring engine\<close>

text \<open>
  A shallow embedding of the trust engine of the repository: the data model of
  \<^verbatim>\<open>chitty_trust/models.py\<close>, the six dimension scorers of \<^verbatim>\<open>dimensions.py\<close>, the four
  output scorers of \<^verbatim>\<open>scores.py\<close>, the engine of \<^verbatim>\<open>core.py\<close> and pattern detection of
  \<^verbatim>\<open>analytics.py\<close>.

  Conventions of the embedding.
  \<^item> A Python \<^verbatim>\<open>float\<close> is a \<^typ>\<open>real\<close>: arithmetic is exact, rounding is not modelled.
  \<^item> A naive \<^verbatim>\<open>datetime\<close> is an \<^typ>\<open>int\<close>, the number of microseconds since a fixed epoch;
    a \<^verbatim>\<open>timedelta\<close> is the difference of two of them, and its attribute \<^verbatim>\<open>.days\<close> is the floor
    of the difference divided by one day (Python normalises a timedelta so that its
    seconds and microseconds are not negative).
  \<^item> \<^verbatim>\<open>datetime.utcnow()\<close> is the parameter \<open>now\<close> of every function that reads the clock; all
    the readings made during one assessment are taken to be the same instant.
  \<^item> The enumerations derive from \<^verbatim>\<open>str\<close>, and the scorers compare their members with string
    literals; the comparison is made on the member's value.
  \<^item> The \<^verbatim>\<open>metadata\<close> dictionaries (\<^verbatim>\<open>Dict[str, Any]\<close>) are read by none of the modelled
    functions and are left out of the records.
\<close>

subsection \<open>Dates\<close>

type_synonym datetime = int
type_synonym timedelta = int

definition one_day :: timedelta where
  "one_day = 86400000000"

definition timedelta_days :: "int \<Rightarrow> timedelta" where
  "timedelta_days n = n * one_day"

definition days :: "timedelta \<Rightarrow> int" where
  "days td = td div one_day"

subsection \<open>models.py\<close>

datatype CredentialType =
  GOVERNMENT_ID | PROFESSIONAL | EDUCATIONAL | FINANCIAL | SOCIAL | BLOCKCHAIN

fun CredentialType_value :: "CredentialType \<Rightarrow> string" where
  "CredentialType_value GOVERNMENT_ID = ''government_id''"
| "CredentialType_value PROFESSIONAL = ''professional''"
| "CredentialType_value EDUCATIONAL = ''educational''"
| "CredentialType_value FINANCIAL = ''financial''"
| "CredentialType_value SOCIAL = ''social''"
| "CredentialType_value BLOCKCHAIN = ''blockchain''"

datatype EventType =
  TRANSACTION | INTERACTION | VERIFICATION | ENDORSEMENT | DISPUTE
| DISPUTE_RESOLUTION | COLLABORATION | REVIEW | ACHIEVEMENT

fun EventType_value :: "EventType \<Rightarrow> string" where
  "EventType_value TRANSACTION = ''transaction''"
| "EventType_value INTERACTION = ''interaction''"
| "EventType_value VERIFICATION = ''verification''"
| "EventType_value ENDORSEMENT = ''endorsement''"
| "EventType_value DISPUTE = ''dispute''"
| "EventType_value DISPUTE_RESOLUTION = ''dispute_resolution''"
| "EventType_value COLLABORATION = ''collaboration''"
| "EventType_value REVIEW = ''review''"
| "EventType_value ACHIEVEMENT = ''achievement''"

datatype Outcome = POSITIVE | NEGATIVE | NEUTRAL | PENDING

fun Outcome_value :: "Outcome \<Rightarrow> string" where
  "Outcome_value POSITIVE = ''positive''"
| "Outcome_value NEGATIVE = ''negative''"
| "Outcome_value NEUTRAL = ''neutral''"
| "Outcome_value PENDING = ''pending''"

record Credential =
  cred_type :: CredentialType
  issuer :: string
  issued_at :: datetime
  expires_at :: "datetime option"
  verification_status :: string

record Connection =
  conn_entity_id :: string
  connection_type :: string
  established_at :: datetime
  trust_score :: real
  interaction_count :: int
  last_interaction :: "datetime option"

record TrustEntity =
  ent_id :: string
  entity_type :: string
  ent_name :: string
  created_at :: datetime
  identity_verified :: bool
  credentials :: "Credential list"
  connections :: "Connection list"
  transparency_level :: real

record TrustEvent =
  ev_id :: string
  entity_id :: string
  event_type :: EventType
  timestamp :: datetime
  channel :: "string option"
  outcome :: Outcome
  impact_score :: real
  related_entities :: "string list"
  tags :: "string list"

text \<open>The field constraints that pydantic checks when a record is built.\<close>

definition valid_connection :: "Connection \<Rightarrow> bool" where
  "valid_connection c = (0 \<le> trust_score c \<and> trust_score c \<le> 100)"

definition valid_entity :: "TrustEntity \<Rightarrow> bool" where
  "valid_entity entity =
     (list_all valid_connection (connections entity)
      \<and> 0 \<le> transparency_level entity \<and> transparency_level entity \<le> 1)"

definition valid_event :: "TrustEvent \<Rightarrow> bool" where
  "valid_event e = (0 \<le> impact_score e \<and> impact_score e \<le> 10)"

subsection \<open>numpy and builtins\<close>

definition np_mean :: "real list \<Rightarrow> real" where
  "np_mean xs = sum_list xs / real (length xs)"

definition np_var :: "real list \<Rightarrow> real" where
  "np_var xs = np_mean (map (\<lambda>x. (x - np_mean xs)\<^sup>2) xs)"

definition np_linspace :: "real \<Rightarrow> real \<Rightarrow> nat \<Rightarrow> real list" where
  "np_linspace start stop num =
     (if num = 1 then [start]
      else map (\<lambda>i. start + real i * ((stop - start) / real (num - 1))) [0..<num])"

definition np_average :: "real list \<Rightarrow> real list \<Rightarrow> real" where
  "np_average xs ws = sum_list (map2 (*) xs ws) / sum_list ws"

text \<open>\<^verbatim>\<open>max(events, key=lambda e: e.timestamp)\<close> on a list that is not empty: the first
  event among those of greatest timestamp.\<close>

fun max_by_timestamp :: "TrustEvent \<Rightarrow> TrustEvent list \<Rightarrow> TrustEvent" where
  "max_by_timestamp best [] = best"
| "max_by_timestamp best (e # es) =
     max_by_timestamp (if timestamp best < timestamp e then e else best) es"

text \<open>\<^verbatim>\<open>e.tags and any(tag in e.tags for tag in wanted)\<close>.\<close>

definition any_tag_in :: "string list \<Rightarrow> TrustEvent \<Rightarrow> bool" where
  "any_tag_in wanted e = list_ex (\<lambda>tag. tag \<in> set (tags e)) wanted"

definition tagged_any :: "string list \<Rightarrow> TrustEvent \<Rightarrow> bool" where
  "tagged_any wanted e = (tags e \<noteq> [] \<and> any_tag_in wanted e)"

subsection \<open>dimensions.py\<close>

definition SourceDimension_calculate :: "TrustEntity \<Rightarrow> TrustEvent list \<Rightarrow> real" where
  "SourceDimension_calculate entity events =
     (let score0 = (if identity_verified entity then 30 else 0);
          creds = credentials entity;
          credential_score = min (real (length creds) * 10) 30;
          score1 = score0 + credential_score;
          score2 = (if list_ex (\<lambda>c. CredentialType_value (cred_type c) = ''government_id'') creds
                    then score1 + 20 else score1);
          prof_certs = filter (\<lambda>c. CredentialType_value (cred_type c) = ''professional'') creds;
          score3 = score2 + min (real (length prof_certs) * 5) 20
      in min score3 100)"

text \<open>The loop \<^verbatim>\<open>for i in range(1, len(event_dates))\<close> collecting the day gaps between
  neighbours.\<close>

fun event_gaps :: "datetime list \<Rightarrow> int list" where
  "event_gaps (a # b # ds) = days (b - a) # event_gaps (b # ds)"
| "event_gaps ds = []"

definition age_score :: "datetime \<Rightarrow> TrustEntity \<Rightarrow> real" where
  "age_score now entity =
     (let account_age_days = days (now - created_at entity)
      in min (real_of_int account_age_days / 365 * 30) 30)"

definition consistency_score :: "TrustEvent list \<Rightarrow> real" where
  "consistency_score events =
     (let event_dates = map timestamp events;
          gaps = event_gaps event_dates
      in if gaps \<noteq> [] then max 0 (30 - np_mean (map real_of_int gaps) / 10) else 15)"

definition recency_score :: "datetime \<Rightarrow> TrustEvent \<Rightarrow> real" where
  "recency_score now latest_event =
     (let days_since_active = days (now - timestamp latest_event)
      in max 0 (20 - real_of_int days_since_active / 10))"

definition positive_events :: "TrustEvent list \<Rightarrow> TrustEvent list" where
  "positive_events events = filter (\<lambda>e. Outcome_value (outcome e) = ''positive'') events"

definition longevity_score :: "TrustEvent list \<Rightarrow> real" where
  "longevity_score events = min (real (length (positive_events events)) / 10 * 20) 20"

definition TemporalDimension_calculate :: "datetime \<Rightarrow> TrustEntity \<Rightarrow> TrustEvent list \<Rightarrow> real" where
  "TemporalDimension_calculate now entity events =
     (case events of
        [] \<Rightarrow> 0
      | e # es \<Rightarrow>
          age_score now entity + consistency_score events
          + recency_score now (max_by_timestamp e es) + longevity_score events)"

subsection \<open>Channel\<close>

definition CHANNEL_TRUST_SCORES :: "(string \<times> real) list" where
  "CHANNEL_TRUST_SCORES =
     [(''verified_api'', 95), (''blockchain'', 90), (''bank_transfer'', 85),
      (''credit_card'', 80), (''oauth'', 75), (''email'', 60), (''sms'', 55),
      (''social_media'', 40), (''anonymous'', 10)]"

text \<open>\<^verbatim>\<open>event.channel or "anonymous"\<close>: \<^verbatim>\<open>None\<close> and the empty string are both false.\<close>

definition channel_or_anonymous :: "TrustEvent \<Rightarrow> string" where
  "channel_or_anonymous e =
     (case channel e of None \<Rightarrow> ''anonymous'' | Some c \<Rightarrow> if c = [] then ''anonymous'' else c)"

definition channel_trust_score :: "TrustEvent \<Rightarrow> real" where
  "channel_trust_score e =
     (case map_of CHANNEL_TRUST_SCORES (channel_or_anonymous e) of None \<Rightarrow> 20 | Some s \<Rightarrow> s)"

definition verified_channels :: "TrustEvent list \<Rightarrow> string option set" where
  "verified_channels events =
     set (map channel
       (filter (\<lambda>e. channel e \<in> set [Some ''verified_api'', Some ''blockchain'', Some ''bank_transfer''])
          events))"

definition ChannelDimension_calculate :: "TrustEntity \<Rightarrow> TrustEvent list \<Rightarrow> real" where
  "ChannelDimension_calculate entity events =
     (if events = [] then 0
      else
        let channel_scores = map channel_trust_score events;
            weights = np_linspace 0.5 1.0 (length channel_scores);
            weighted_score = (if length weights > 0 then np_average channel_scores weights
                              else np_mean channel_scores);
            diversity_bonus = min (real (card (verified_channels events)) * 5) 15
        in min (weighted_score + diversity_bonus) 100)"

subsection \<open>Outcome\<close>

definition negative_events :: "TrustEvent list \<Rightarrow> TrustEvent list" where
  "negative_events events = filter (\<lambda>e. Outcome_value (outcome e) = ''negative'') events"

definition recent_events :: "datetime \<Rightarrow> TrustEvent list \<Rightarrow> TrustEvent list" where
  "recent_events now events = filter (\<lambda>e. timestamp e > now - timedelta_days 90) events"

definition OutcomeDimension_calculate :: "datetime \<Rightarrow> TrustEntity \<Rightarrow> TrustEvent list \<Rightarrow> real" where
  "OutcomeDimension_calculate now entity events =
     (if events = [] then 0
      else
        let total_events = length events;
            positive_ratio = real (length (positive_events events)) / real total_events;
            negative_ratio = real (length (negative_events events)) / real total_events;
            base_score = positive_ratio * 70;
            negative_penalty = negative_ratio * 100;
            consistency_bonus =
              (if positive_ratio > 0.8 \<and> total_events > 10 then 20
               else if positive_ratio > 0.6 then 10
               else 0);
            recent = recent_events now events;
            recency_adjustment =
              (if recent \<noteq> [] then
                 let recent_positive = length (positive_events recent);
                     recent_ratio = real recent_positive / real (length recent)
                 in (recent_ratio - positive_ratio) * 20
               else 0);
            score = base_score - negative_penalty + consistency_bonus + recency_adjustment
        in max 0 (min score 100))"

subsection \<open>Network\<close>

definition NetworkDimension_calculate :: "TrustEntity \<Rightarrow> TrustEvent list \<Rightarrow> real" where
  "NetworkDimension_calculate entity events =
     (let conns = connections entity;
          size_score = min (real (length conns) / 100 * 20) 20;
          quality_score = (if conns \<noteq> [] then np_mean (map trust_score conns) * 0.4 else 0);
          interaction_events =
            filter (\<lambda>e. EventType_value (event_type e)
                          \<in> set [''interaction'', ''transaction'', ''collaboration'']) events;
          frequency_score = min (real (length interaction_events) / 50 * 20) 20;
          endorsement_events =
            filter (\<lambda>e. EventType_value (event_type e) = ''endorsement''
                          \<and> Outcome_value (outcome e) = ''positive'') events;
          endorsement_score = min (real (length endorsement_events) * 5) 20
      in size_score + quality_score + frequency_score + endorsement_score)"

subsection \<open>Justice\<close>

definition JusticeDimension_calculate :: "TrustEntity \<Rightarrow> TrustEvent list \<Rightarrow> real" where
  "JusticeDimension_calculate entity events =
     (let community_events = filter (tagged_any [''community_impact'']) events;
          community_score = min (real (length community_events) * 10) 30;
          justice_events =
            filter (tagged_any [''justice'', ''fairness'', ''equality'', ''transparency'']) events;
          justice_score = min (real (length justice_events) * 8) 25;
          harm_prevention = filter (tagged_any [''harm_prevention'']) events;
          prevention_score = min (real (length harm_prevention) * 5) 15;
          resolution_events =
            filter (\<lambda>e. EventType_value (event_type e) = ''dispute_resolution''
                          \<and> Outcome_value (outcome e) = ''positive'') events;
          resolution_score = min (real (length resolution_events) * 10) 20;
          score = community_score + justice_score + prevention_score + resolution_score;
          score' = (if transparency_level entity \<noteq> 0 \<and> transparency_level entity > 0.7
                    then score + 10 else score)
      in min score' 100)"

subsection \<open>scores.py\<close>

text \<open>The dictionary \<^verbatim>\<open>dimension_scores\<close> is built by the engine with exactly the six keys
  below, in this order; it is a record here, and \<^verbatim>\<open>scores.values()\<close> is the list of its six
  fields.\<close>

record DimensionScores =
  dim_source :: real
  dim_temporal :: real
  dim_channel :: real
  dim_outcome :: real
  dim_network :: real
  dim_justice :: real

definition dimension_values :: "DimensionScores \<Rightarrow> real list" where
  "dimension_values ds =
     [dim_source ds, dim_temporal ds, dim_channel ds, dim_outcome ds, dim_network ds,
      dim_justice ds]"

text \<open>\<^verbatim>\<open>sum(dimension_scores[dim] * weight for dim, weight in weights.items())\<close>, the
  weights given in the order source, temporal, channel, outcome, network, justice.\<close>

definition weighted_base :: "real list \<Rightarrow> DimensionScores \<Rightarrow> real" where
  "weighted_base weights ds = sum_list (map2 (*) (dimension_values ds) weights)"

definition PeopleScore_calculate :: "DimensionScores \<Rightarrow> TrustEntity \<Rightarrow> TrustEvent list \<Rightarrow> real" where
  "PeopleScore_calculate ds entity events =
     (let base_score = weighted_base [0.10, 0.10, 0.10, 0.20, 0.25, 0.25] ds;
          community_events =
            filter (tagged_any [''community'', ''volunteer'', ''charity'', ''public_good'']) events;
          community_bonus = min (real (length community_events) * 2) 10;
          antisocial_events =
            filter (tagged_any [''harassment'', ''discrimination'', ''fraud'', ''violation'']) events;
          antisocial_penalty = real (length antisocial_events) * 5
      in max 0 (min (base_score + community_bonus - antisocial_penalty) 100))"

definition LegalScore_calculate :: "DimensionScores \<Rightarrow> TrustEntity \<Rightarrow> TrustEvent list \<Rightarrow> real" where
  "LegalScore_calculate ds entity events =
     (let base_score = weighted_base [0.25, 0.15, 0.20, 0.15, 0.10, 0.15] ds;
          compliance_events =
            filter (tagged_any [''compliance'', ''regulatory'', ''audit_passed'', ''certification''])
              events;
          compliance_bonus = min (real (length compliance_events) * 3) 15;
          violation_events =
            filter (tagged_any [''violation'', ''breach'', ''illegal'', ''sanctioned'']) events;
          violation_penalty = real (length violation_events) * 10;
          doc_score = (if credentials entity \<noteq> []
                       then min (real (length (credentials entity)) * 2) 10 else 0)
      in max 0 (min (base_score + compliance_bonus + doc_score - violation_penalty) 100))"

definition StateScore_calculate :: "DimensionScores \<Rightarrow> TrustEntity \<Rightarrow> TrustEvent list \<Rightarrow> real" where
  "StateScore_calculate ds entity events =
     (let base_score = weighted_base [0.30, 0.15, 0.25, 0.10, 0.10, 0.10] ds;
          gov_credentials =
            filter (\<lambda>c. CredentialType_value (cred_type c) = ''government_id''
                          \<and> verification_status c = ''verified'') (credentials entity);
          gov_bonus = real (length gov_credentials) * 15;
          institutional_events =
            filter (tagged_any [''government'', ''institutional'', ''official'', ''licensed'']) events;
          inst_bonus = min (real (length institutional_events) * 2) 10;
          anti_events =
            filter (tagged_any [''protest'', ''dissent'', ''whistleblower'', ''activist'']) events;
          anti_penalty = real (length anti_events) * 2
      in max 0 (min (base_score + gov_bonus + inst_bonus - anti_penalty) 100))"

subsection \<open>ChittyScore\<close>

definition chitty_base_score :: "DimensionScores \<Rightarrow> real" where
  "chitty_base_score ds = weighted_base [0.10, 0.10, 0.10, 0.25, 0.15, 0.30] ds"

definition chitty_justice_bonus :: "TrustEvent list \<Rightarrow> real" where
  "chitty_justice_bonus events =
     (let justice_events =
            filter (tagged_any [''justice'', ''fairness'', ''helped_vulnerable'', ''truth_telling'',
                                ''accountability'', ''reparation'', ''reform'']) events
      in min (real (length justice_events) * 4) 20)"

definition chitty_impact_bonus :: "TrustEvent list \<Rightarrow> real" where
  "chitty_impact_bonus events =
     (let impact_events =
            filter (\<lambda>e. Outcome_value (outcome e) = ''positive'' \<and> impact_score e > 5) events
      in min (sum_list (map impact_score impact_events) / 10) 15)"

definition violation_events :: "TrustEvent list \<Rightarrow> TrustEvent list" where
  "violation_events events = filter (\<lambda>e. tags e \<noteq> [] \<and> ''violation'' \<in> set (tags e)) events"

definition justice_violations :: "TrustEvent list \<Rightarrow> TrustEvent list" where
  "justice_violations events =
     filter (any_tag_in [''civil_disobedience'', ''whistleblower'']) (violation_events events)"

definition chitty_violation_penalty :: "TrustEvent list \<Rightarrow> real" where
  "chitty_violation_penalty events =
     (let regular_violations =
            int (length (violation_events events)) - int (length (justice_violations events))
      in real_of_int (regular_violations * 5 + int (length (justice_violations events)) * 1))"

definition chitty_transformation_bonus :: "TrustEvent list \<Rightarrow> real" where
  "chitty_transformation_bonus events =
     (let transformation_events = filter (tagged_any [''transformation'']) events
      in if transformation_events \<noteq> [] then 10 else 0)"

definition ChittyScore_calculate :: "DimensionScores \<Rightarrow> TrustEntity \<Rightarrow> TrustEvent list \<Rightarrow> real" where
  "ChittyScore_calculate ds entity events =
     max 0 (min (chitty_base_score ds + chitty_justice_bonus events + chitty_impact_bonus events
                 + chitty_transformation_bonus events - chitty_violation_penalty events) 100)"

subsection \<open>core.py\<close>

record TrustScore =
  source_score :: real
  temporal_score :: real
  channel_score :: real
  outcome_score :: real
  network_score :: real
  justice_score :: real
  people_score :: real
  legal_score :: real
  state_score :: real
  chitty_score :: real
  calculated_at :: datetime
  confidence :: real
  explanation :: "(string \<times> string) list"

definition composite_score :: "TrustScore \<Rightarrow> real" where
  "composite_score ts =
     sum_list [source_score ts * 0.15, temporal_score ts * 0.10, channel_score ts * 0.15,
               outcome_score ts * 0.20, network_score ts * 0.15, justice_score ts * 0.25]"

definition explain :: "real \<Rightarrow> string \<Rightarrow> string \<Rightarrow> string \<Rightarrow> string" where
  "explain score low middle high = (if score < 50 then low else if score < 80 then middle else high)"

definition generate_explanation :: "DimensionScores \<Rightarrow> (string \<times> string) list" where
  "generate_explanation scores =
     [(''source'', explain (dim_source scores)
         ''Limited verification of identity and credentials''
         ''Partially verified identity with some credentials''
         ''Fully verified identity with strong credentials''),
      (''temporal'', explain (dim_temporal scores)
         ''Limited or inconsistent history''
         ''Moderate history with some gaps''
         ''Long, consistent history of positive behavior''),
      (''channel'', explain (dim_channel scores)
         ''Uses unverified or low-trust channels''
         ''Mix of verified and unverified channels''
         ''Primarily uses verified, high-trust channels''),
      (''outcome'', explain (dim_outcome scores)
         ''Poor track record of outcomes''
         ''Mixed outcomes with room for improvement''
         ''Excellent track record of positive outcomes''),
      (''network'', explain (dim_network scores)
         ''Limited or low-trust network connections''
         ''Growing network with mixed trust levels''
         ''Strong network of high-trust connections''),
      (''justice'', explain (dim_justice scores)
         ''Actions show limited alignment with justice''
         ''Generally justice-aligned with some concerns''
         ''Strongly aligned with justice principles'')]"

definition calculate_confidence :: "datetime \<Rightarrow> TrustEvent list \<Rightarrow> DimensionScores \<Rightarrow> real" where
  "calculate_confidence now events scores =
     (let event_confidence = min (real (length events) / 100) 1.0 * 0.5;
          score_variance = np_var (dimension_values scores);
          consistency_confidence = (1 - score_variance / 5000) * 0.3;
          recency_confidence =
            (case events of
               [] \<Rightarrow> 0
             | e # es \<Rightarrow>
                 let latest_event = max_by_timestamp e es;
                     days_old = days (now - timestamp latest_event)
                 in max 0 (1 - real_of_int days_old / 365) * 0.2);
          total_confidence = event_confidence + consistency_confidence + recency_confidence
      in min (max total_confidence 0.1) 1.0)"

definition dimension_scores :: "datetime \<Rightarrow> TrustEntity \<Rightarrow> TrustEvent list \<Rightarrow> DimensionScores" where
  "dimension_scores now entity events =
     \<lparr> dim_source = SourceDimension_calculate entity events,
       dim_temporal = TemporalDimension_calculate now entity events,
       dim_channel = ChannelDimension_calculate entity events,
       dim_outcome = OutcomeDimension_calculate now entity events,
       dim_network = NetworkDimension_calculate entity events,
       dim_justice = JusticeDimension_calculate entity events \<rparr>"

definition TrustEngine_calculate_trust :: "datetime \<Rightarrow> TrustEntity \<Rightarrow> TrustEvent list \<Rightarrow> TrustScore" where
  "TrustEngine_calculate_trust now entity events =
     (let ds = dimension_scores now entity events
      in \<lparr> source_score = dim_source ds,
            temporal_score = dim_temporal ds,
            channel_score = dim_channel ds,
            outcome_score = dim_outcome ds,
            network_score = dim_network ds,
            justice_score = dim_justice ds,
            people_score = PeopleScore_calculate ds entity events,
            legal_score = LegalScore_calculate ds entity events,
            state_score = StateScore_calculate ds entity events,
            chitty_score = ChittyScore_calculate ds entity events,
            calculated_at = now,
            confidence = calculate_confidence now events ds,
            explanation = generate_explanation ds \<rparr>)"



subsection \<open>analytics.py\<close>

record TrustPattern =
  pattern_type :: string
  description :: string
  frequency :: nat
  last_occurrence :: datetime
  risk_level :: string
  recommendation :: string

text \<open>\<^verbatim>\<open>hasattr(e, 'value')\<close> and \<^verbatim>\<open>e.value\<close>: the class \<^verbatim>\<open>TrustEvent\<close> declares the fields of the
  record above, \<^verbatim>\<open>metadata\<close> and the properties \<^verbatim>\<open>is_positive\<close>, \<^verbatim>\<open>is_negative\<close> and
  \<^verbatim>\<open>is_resolved\<close>; a pydantic model takes no attribute beyond its fields, so the lookup of
  \<^verbatim>\<open>value\<close> finds nothing.\<close>

definition getattr_value :: "TrustEvent \<Rightarrow> real option" where
  "getattr_value e = None"

definition high_value_events :: "TrustEvent list \<Rightarrow> TrustEvent list" where
  "high_value_events events =
     filter (\<lambda>e. EventType_value (event_type e) = ''transaction''
                   \<and> (case getattr_value e of None \<Rightarrow> False | Some v \<Rightarrow> v > 1000)) events"

definition community_events :: "TrustEvent list \<Rightarrow> TrustEvent list" where
  "community_events events =
     filter (\<lambda>e. EventType_value (event_type e)
                   \<in> set [''community_service'', ''endorsement'', ''collaboration'']) events"

definition professional_events :: "TrustEvent list \<Rightarrow> TrustEvent list" where
  "professional_events events =
     filter (\<lambda>e. EventType_value (event_type e)
                   \<in> set [''certification'', ''professional_development'', ''training'']) events"

text \<open>One \<^verbatim>\<open>if len(found) > threshold: patterns.append(TrustPattern(...))\<close> block; the
  greatest timestamp is only taken of a list that is not empty.\<close>

definition pattern_if_more_than ::
  "nat \<Rightarrow> TrustEvent list \<Rightarrow> string \<Rightarrow> string \<Rightarrow> string \<Rightarrow> string \<Rightarrow> TrustPattern list" where
  "pattern_if_more_than threshold found ptype descr risk recomm =
     (case found of
        [] \<Rightarrow> []
      | e # es \<Rightarrow>
          if length found > threshold then
            [\<lparr> pattern_type = ptype, description = descr, frequency = length found,
               last_occurrence = timestamp (max_by_timestamp e es),
               risk_level = risk, recommendation = recomm \<rparr>]
          else [])"

definition detect_patterns :: "TrustEntity \<Rightarrow> TrustEvent list \<Rightarrow> TrustPattern list" where
  "detect_patterns entity events =
     pattern_if_more_than 5 (high_value_events events)
       ''high_value_activity''
       ''Regular high-value transactions with consistent positive outcomes''
       ''low''
       ''Suitable for high-value engagements''
     @ pattern_if_more_than 8 (community_events events)
       ''community_engagement''
       ''Strong pattern of community involvement and collaborative activities''
       ''low''
       ''Excellent for community-focused initiatives''
     @ pattern_if_more_than 3 (professional_events events)
       ''professional_development''
       ''Consistent investment in professional growth and skill development''
       ''low''
       ''Strong candidate for professional partnerships''"

subsection \<open>The specification's formulas\<close>

text \<open>The definitions of this subsection follow the wording of the specification, not the
  code; the theorems below compare them with the scorers.\<close>

text \<open>The Chitty penalty of one event: 5 for an event tagged \<open>violation\<close>, 1 when it is also
  tagged \<open>civil_disobedience\<close> or \<open>whistleblower\<close>, nothing otherwise.\<close>

definition violation_penalty_of :: "TrustEvent \<Rightarrow> real" where
  "violation_penalty_of e =
     (if ''violation'' \<in> set (tags e)
      then (if ''civil_disobedience'' \<in> set (tags e) \<or> ''whistleblower'' \<in> set (tags e)
            then 1 else 5)
      else 0)"

definition positive_ratio :: "TrustEvent list \<Rightarrow> real" where
  "positive_ratio events = real (length (positive_events events)) / real (length events)"

definition negative_ratio :: "TrustEvent list \<Rightarrow> real" where
  "negative_ratio events = real (length (negative_events events)) / real (length events)"

definition recency_adjustment :: "datetime \<Rightarrow> TrustEvent list \<Rightarrow> real" where
  "recency_adjustment now events =
     (if recent_events now events = [] then 0
      else (positive_ratio (recent_events now events) - positive_ratio events) * 20)"

text \<open>The consistency bonus as the specification words it ("at least 10 events") and as the
  amended statement has it ("more than 10 events").\<close>

definition consistency_bonus_at_least_10 :: "TrustEvent list \<Rightarrow> real" where
  "consistency_bonus_at_least_10 events =
     (if positive_ratio events > 0.8 \<and> length events \<ge> 10 then 20
      else if positive_ratio events > 0.6 then 10 else 0)"

definition consistency_bonus_more_than_10 :: "TrustEvent list \<Rightarrow> real" where
  "consistency_bonus_more_than_10 events =
     (if positive_ratio events > 0.8 \<and> length events > 10 then 20
      else if positive_ratio events > 0.6 then 10 else 0)"

definition outcome_spec :: "datetime \<Rightarrow> TrustEvent list \<Rightarrow> real" where
  "outcome_spec now events =
     (if events = [] then 0
      else max 0 (min (positive_ratio events * 70 - negative_ratio events * 100
                       + consistency_bonus_at_least_10 events + recency_adjustment now events) 100))"

definition outcome_spec_amended :: "datetime \<Rightarrow> TrustEvent list \<Rightarrow> real" where
  "outcome_spec_amended now events =
     (if events = [] then 0
      else max 0 (min (positive_ratio events * 70 - negative_ratio events * 100
                       + consistency_bonus_more_than_10 events + recency_adjustment now events) 100))"

text \<open>Two clock readings that the scorers cannot tell apart: they give the same age in whole
  days to the entity and to every event, and they put the same events inside the window of
  the last 90 days.\<close>

definition same_clock_view :: "datetime \<Rightarrow> datetime \<Rightarrow> TrustEntity \<Rightarrow> TrustEvent list \<Rightarrow> bool" where
  "same_clock_view now1 now2 entity events =
     (days (now1 - created_at entity) = days (now2 - created_at entity)
      \<and> list_all (\<lambda>e. days (now1 - timestamp e) = days (now2 - timestamp e)
                      \<and> (timestamp e > now1 - timedelta_days 90)
                          = (timestamp e > now2 - timedelta_days 90)) events)"

subsection \<open>Sample inputs\<close>

text \<open>The call \<^verbatim>\<open>TrustEvent(id=..., entity_id=..., event_type=..., timestamp=..., channel=...,
  outcome=..., impact_score=..., tags=...)\<close>, the other fields at their defaults.\<close>

definition mk_event ::
  "string \<Rightarrow> string \<Rightarrow> EventType \<Rightarrow> datetime \<Rightarrow> string option \<Rightarrow> Outcome \<Rightarrow> real \<Rightarrow> string list
   \<Rightarrow> TrustEvent" where
  "mk_event i eid ty ts ch oc imp tgs =
     \<lparr> ev_id = i, entity_id = eid, event_type = ty, timestamp = ts, channel = ch, outcome = oc,
       impact_score = imp, related_entities = [], tags = tgs \<rparr>"

definition example_now :: datetime where
  "example_now = timedelta_days 20000"

text \<open>The persona "Alice Community" of \<^verbatim>\<open>example_usage.py\<close>, every \<^verbatim>\<open>datetime.utcnow()\<close> of its
  construction read as \<open>example_now\<close>: ten collaborations, the \<open>i\<close>-th of them \<open>30 * i\<close> days
  ago (so the list runs from the newest to the oldest), then one achievement of 60 days ago.\<close>

definition alice :: TrustEntity where
  "alice =
     \<lparr> ent_id = ''alice_123'', entity_type = ''person'', ent_name = ''Alice Community'',
       created_at = example_now - timedelta_days 1095,
       identity_verified = True,
       credentials =
         [\<lparr> cred_type = GOVERNMENT_ID, issuer = ''State DMV'',
             issued_at = example_now - timedelta_days 365, expires_at = None,
             verification_status = ''verified'' \<rparr>,
          \<lparr> cred_type = PROFESSIONAL, issuer = ''Community Leadership Institute'',
             issued_at = example_now - timedelta_days 180, expires_at = None,
             verification_status = ''verified'' \<rparr>],
       connections =
         map (\<lambda>(i, name). \<lparr> conn_entity_id = name, connection_type = ''community_member'',
                     established_at = example_now - timedelta_days (365 - i * 30),
                     trust_score = 85 + real_of_int i,
                     interaction_count = 100 + i * 10,
                     last_interaction = None \<rparr>)
           [(0, ''friend_0''), (1, ''friend_1''), (2, ''friend_2''), (3, ''friend_3''),
            (4, ''friend_4'')],
       transparency_level = 0.95 \<rparr>"

definition alice_events :: "TrustEvent list" where
  "alice_events =
     map (\<lambda>(i, name). mk_event name ''alice_123'' COLLABORATION
                (example_now - timedelta_days (30 * i)) (Some ''verified_api'') POSITIVE 8
                [''community_impact'', ''justice'', ''transparency''])
         [(0, ''alice_evt_0''), (1, ''alice_evt_1''), (2, ''alice_evt_2''), (3, ''alice_evt_3''),
          (4, ''alice_evt_4''), (5, ''alice_evt_5''), (6, ''alice_evt_6''), (7, ''alice_evt_7''),
          (8, ''alice_evt_8''), (9, ''alice_evt_9'')]
     @ [mk_event ''alice_volunteer'' ''alice_123'' ACHIEVEMENT
          (example_now - timedelta_days 60) (Some ''blockchain'') POSITIVE 10
          [''volunteer'', ''charity'', ''helped_vulnerable'']]"

text \<open>A new entity without credentials or connections, as in \<^verbatim>\<open>test_empty_events\<close>.\<close>

definition new_user :: TrustEntity where
  "new_user =
     \<lparr> ent_id = ''new_user'', entity_type = ''person'', ent_name = ''New User'',
       created_at = example_now - timedelta_days 400, identity_verified = False,
       credentials = [], connections = [], transparency_level = 0.5 \<rparr>"

text \<open>An event of \<open>new_user\<close>, \<open>d\<close> days before \<open>example_now\<close>.\<close>

definition user_event :: "EventType \<Rightarrow> Outcome \<Rightarrow> int \<Rightarrow> string list \<Rightarrow> TrustEvent" where
  "user_event ty oc d tgs =
     mk_event ''evt'' ''new_user'' ty (example_now - timedelta_days d) (Some ''email'') oc 1 tgs"

definition ten_positive_events :: "TrustEvent list" where
  "ten_positive_events =
     map (\<lambda>d. user_event TRANSACTION POSITIVE d []) [1, 2, 3, 4, 5, 6, 7, 8, 9, 10]"

definition eleven_positive_events :: "TrustEvent list" where
  "eleven_positive_events = user_event TRANSACTION POSITIVE 100 [] # ten_positive_events"



definition violation_sample :: "TrustEvent list" where
  "violation_sample =
     [user_event DISPUTE NEGATIVE 20 [''violation'', ''fraud''],
      user_event DISPUTE NEGATIVE 10 [''violation'', ''whistleblower''],
      user_event TRANSACTION POSITIVE 5 [''justice'']]"

definition sample_score :: TrustScore where
  "sample_score =
     \<lparr> source_score = 80, temporal_score = 50, channel_score = 60, outcome_score = 70,
       network_score = 40, justice_score = 20, people_score = 0, legal_score = 0,
       state_score = 0, chitty_score = 0, calculated_at = example_now, confidence = 0.5,
       explanation = [] \<rparr>"

lemmas sample_defs = user_event_def mk_event_def new_user_def example_now_def
  timedelta_days_def one_day_def days_def

section \<open>Properties\<close>

subsection \<open>Auxiliary facts\<close>

lemma np_var_nonneg: "0 \<le> np_var xs"
  unfolding np_var_def np_mean_def
  by (intro divide_nonneg_nonneg sum_list_nonneg) auto

lemma max_by_timestamp_in: "max_by_timestamp b es \<in> set (b # es)"
  by (induction es arbitrary: b) auto

lemma pattern_if_more_than_cases:
  "pattern_if_more_than n found ty d r c =
     (if length found > n then
        [\<lparr> pattern_type = ty, description = d, frequency = length found,
           last_occurrence = timestamp (max_by_timestamp (hd found) (tl found)),
           risk_level = r, recommendation = c \<rparr>]
      else [])"
  by (cases found) (simp_all add: pattern_if_more_than_def)

lemma in_pattern_if_more_than:
  "p \<in> set (pattern_if_more_than n found ty d r c) \<Longrightarrow>
     pattern_type p = ty \<and> risk_level p = r \<and> recommendation p = c \<and> n < length found"
  by (simp add: pattern_if_more_than_cases split: if_splits)


subsection \<open>The composite score\<close>

text \<open>Claim C2. For every TrustScore, \<open>composite_score\<close> is the weighted sum of the six
  dimension scores with the weights 0.15 (source), 0.10 (temporal), 0.15 (channel),
  0.20 (outcome), 0.15 (network) and 0.25 (justice). Over the reals the equality is exact.\<close>

theorem composite_score_weighted_sum:
  "composite_score ts =
     source_score ts * 0.15 + temporal_score ts * 0.10 + channel_score ts * 0.15
     + outcome_score ts * 0.20 + network_score ts * 0.15 + justice_score ts * 0.25"
  by (simp add: composite_score_def)

theorem composite_score_weighted_sum_witness:
  "composite_score sample_score = 51"
  using composite_score_weighted_sum [of sample_score]
  by (simp add: sample_score_def)

subsection \<open>The entry point validates nothing\<close>




subsection \<open>No events\<close>

text \<open>Claim C4. For every entity, the engine called with an empty event list returns
  \<open>temporal_score = 0\<close> and a confidence strictly below 0.5.\<close>

theorem empty_events_temporal_zero_confidence_low:
  "temporal_score (TrustEngine_calculate_trust now entity []) = 0
   \<and> confidence (TrustEngine_calculate_trust now entity []) < 0.5"
proof -
  let ?ds = "dimension_scores now entity []"
  have t: "temporal_score (TrustEngine_calculate_trust now entity []) = 0"
    by (simp add: TrustEngine_calculate_trust_def Let_def dimension_scores_def
        TemporalDimension_calculate_def)
  have v: "0 \<le> np_var (dimension_values ?ds)" by (rule np_var_nonneg)
  have c: "confidence (TrustEngine_calculate_trust now entity []) = calculate_confidence now [] ?ds"
    by (simp add: TrustEngine_calculate_trust_def Let_def)
  have "calculate_confidence now [] ?ds
          = min (max ((1 - np_var (dimension_values ?ds) / 5000) * 0.3) 0.1) 1"
    by (simp add: calculate_confidence_def Let_def)
  moreover have "(1 - np_var (dimension_values ?ds) / 5000) * 0.3 \<le> 0.3"
    using v by simp
  ultimately have "calculate_confidence now [] ?ds < 0.5"
    by (simp add: min_def max_def)
  with t c show ?thesis by simp
qed

theorem empty_events_temporal_zero_confidence_low_witness:
  "temporal_score (TrustEngine_calculate_trust example_now alice []) = 0
   \<and> confidence (TrustEngine_calculate_trust example_now alice []) < 0.5"
  using empty_events_temporal_zero_confidence_low [of example_now alice]
  by simp

subsection \<open>The Chitty violation penalty\<close>

lemma violation_penalty_sum:
  "chitty_violation_penalty events = sum_list (map violation_penalty_of events)"
proof -
  have le: "length (justice_violations events) \<le> length (violation_events events)"
    by (simp add: justice_violations_def)
  have "real (length (violation_events events)) * 5 - real (length (justice_violations events)) * 4
        = sum_list (map violation_penalty_of events)"
    by (induction events)
       (auto simp: violation_events_def justice_violations_def any_tag_in_def violation_penalty_of_def)
  then show ?thesis
    using le by (simp add: chitty_violation_penalty_def Let_def algebra_simps)
qed

text \<open>Claim C5. The penalty that the Chitty score subtracts before its final clamp to
  \<open>[0, 100]\<close> is the sum over the events of 5 for each event tagged \<open>violation\<close> and neither
  \<open>civil_disobedience\<close> nor \<open>whistleblower\<close>, and of 1 for each event tagged \<open>violation\<close>
  and also \<open>civil_disobedience\<close> or \<open>whistleblower\<close>.\<close>

theorem chitty_violation_penalty_per_event:
  "chitty_violation_penalty events = sum_list (map violation_penalty_of events)
   \<and> ChittyScore_calculate ds entity events =
       max 0 (min (chitty_base_score ds + chitty_justice_bonus events + chitty_impact_bonus events
                   + chitty_transformation_bonus events
                   - sum_list (map violation_penalty_of events)) 100)"
  by (simp add: ChittyScore_calculate_def violation_penalty_sum)

theorem chitty_violation_penalty_per_event_witness:
  "chitty_violation_penalty violation_sample = 6"
  using chitty_violation_penalty_per_event [of violation_sample]
  by (simp add: violation_sample_def violation_penalty_of_def user_event_def mk_event_def)

subsection \<open>The outcome dimension\<close>

text \<open>The statement of claim C6 fails at ten events: with ten positive events the code gives
  the bonus 10 and the score 80, where the claimed formula gives the bonus 20 and the score
  90.\<close>

theorem outcome_ten_positive_counterexample:
  "OutcomeDimension_calculate example_now new_user ten_positive_events = 80
   \<and> outcome_spec example_now ten_positive_events = 90"
  by (simp add: OutcomeDimension_calculate_def outcome_spec_def ten_positive_events_def
      positive_events_def negative_events_def recent_events_def positive_ratio_def
      negative_ratio_def recency_adjustment_def consistency_bonus_at_least_10_def Let_def
      sample_defs)

text \<open>Claim C6, amended. For every non-empty event list the outcome score is
  \<open>positive_ratio * 70 - negative_ratio * 100 + consistency_bonus + recency_adjustment\<close>
  clamped to \<open>[0, 100]\<close>, where the consistency bonus is 20 when the positive ratio exceeds
  0.8 with more than 10 events, 10 when it exceeds 0.6, else 0, and the recency adjustment is
  (positive ratio among the events of the last 90 days - overall positive ratio) * 20, or 0
  when no event falls in the last 90 days; with an empty list the score is 0.\<close>

theorem outcome_formula:
  "OutcomeDimension_calculate now entity events = outcome_spec_amended now events"
proof (cases "events = []")
  case True
  then show ?thesis
    by (simp add: OutcomeDimension_calculate_def outcome_spec_amended_def)
next
  case False
  have adj: "recency_adjustment now events =
      (if recent_events now events \<noteq> [] then
         (real (length (positive_events (recent_events now events)))
           / real (length (recent_events now events)) - positive_ratio events) * 20
       else 0)"
    by (simp add: recency_adjustment_def positive_ratio_def)
  show ?thesis
    unfolding OutcomeDimension_calculate_def outcome_spec_amended_def Let_def adj
      consistency_bonus_more_than_10_def
    unfolding positive_ratio_def negative_ratio_def
    using False by simp
qed

theorem outcome_formula_witness:
  "OutcomeDimension_calculate example_now new_user eleven_positive_events = 90"
  using outcome_formula [of example_now new_user eleven_positive_events]
  by (simp add: outcome_spec_amended_def eleven_positive_events_def ten_positive_events_def
      positive_events_def negative_events_def recent_events_def positive_ratio_def
      negative_ratio_def recency_adjustment_def consistency_bonus_more_than_10_def Let_def
      sample_defs)

subsection \<open>Dependence on the clock\<close>

text \<open>The statement of claim C7 fails: the temporal scorer reads the clock, and the same entity
  and events assessed 100 days later get another temporal score.\<close>

theorem temporal_depends_on_clock_counterexample:
  "temporal_score (TrustEngine_calculate_trust example_now new_user
       [user_event TRANSACTION POSITIVE 5 []])
   \<noteq> temporal_score (TrustEngine_calculate_trust (example_now + timedelta_days 100) new_user
       [user_event TRANSACTION POSITIVE 5 []])"
  by (simp add: TrustEngine_calculate_trust_def dimension_scores_def TemporalDimension_calculate_def
      age_score_def consistency_score_def recency_score_def longevity_score_def positive_events_def
      Let_def sample_defs)

lemma same_clock_dimension_scores:
  assumes "same_clock_view now1 now2 entity events"
  shows "dimension_scores now1 entity events = dimension_scores now2 entity events"
proof -
  from assms have age: "age_score now1 entity = age_score now2 entity"
    by (simp add: same_clock_view_def age_score_def)
  from assms have ev: "\<And>e. e \<in> set events \<Longrightarrow> days (now1 - timestamp e) = days (now2 - timestamp e)"
    by (simp add: same_clock_view_def list_all_iff)
  have rec: "recency_score now1 (max_by_timestamp e es) = recency_score now2 (max_by_timestamp e es)"
    if "events = e # es" for e es
    using ev [of "max_by_timestamp e es"] max_by_timestamp_in [of e es] that
    by (simp add: recency_score_def)
  have t: "TemporalDimension_calculate now1 entity events = TemporalDimension_calculate now2 entity events"
    using age rec by (simp add: TemporalDimension_calculate_def split: list.splits)
  from assms have "recent_events now1 events = recent_events now2 events"
    unfolding recent_events_def same_clock_view_def list_all_iff
    by (intro filter_cong) auto
  then have "OutcomeDimension_calculate now1 entity events = OutcomeDimension_calculate now2 entity events"
    by (simp only: OutcomeDimension_calculate_def)
  with t show ?thesis by (simp add: dimension_scores_def)
qed

lemma same_clock_confidence:
  assumes "same_clock_view now1 now2 entity events"
  shows "calculate_confidence now1 events ds = calculate_confidence now2 events ds"
proof (cases events)
  case Nil
  then show ?thesis by (simp add: calculate_confidence_def)
next
  case (Cons e es)
  from assms Cons have "\<forall>x \<in> set (e # es). days (now1 - timestamp x) = days (now2 - timestamp x)"
    by (simp add: same_clock_view_def list_all_iff)
  then have "days (now1 - timestamp (max_by_timestamp e es)) = days (now2 - timestamp (max_by_timestamp e es))"
    using max_by_timestamp_in [of e es] by blast
  with Cons show ?thesis by (simp add: calculate_confidence_def Let_def)
qed

text \<open>Claim C7, amended. Two assessments of the same entity and events give the same source,
  channel, network and justice scores whatever the two clock readings; and they give the same
  six dimension scores, four output scores, confidence and explanation (all fields but
  \<open>calculated_at\<close>) when the two clock readings give the same age in whole days to the entity
  and to every event and put the same events within the last 90 days, as two equal readings
  do.\<close>

theorem idempotent_for_same_clock_view:
  "source_score (TrustEngine_calculate_trust now1 entity events)
     = source_score (TrustEngine_calculate_trust now2 entity events)
   \<and> channel_score (TrustEngine_calculate_trust now1 entity events)
     = channel_score (TrustEngine_calculate_trust now2 entity events)
   \<and> network_score (TrustEngine_calculate_trust now1 entity events)
     = network_score (TrustEngine_calculate_trust now2 entity events)
   \<and> justice_score (TrustEngine_calculate_trust now1 entity events)
     = justice_score (TrustEngine_calculate_trust now2 entity events)
   \<and> (same_clock_view now1 now2 entity events \<longrightarrow>
        (TrustEngine_calculate_trust now1 entity events) \<lparr> calculated_at := t \<rparr>
        = (TrustEngine_calculate_trust now2 entity events) \<lparr> calculated_at := t \<rparr>)"
proof -
  have whole: "(TrustEngine_calculate_trust now1 entity events) \<lparr> calculated_at := t \<rparr>
        = (TrustEngine_calculate_trust now2 entity events) \<lparr> calculated_at := t \<rparr>"
    if "same_clock_view now1 now2 entity events"
    by (simp only: TrustEngine_calculate_trust_def same_clock_dimension_scores [OF that]
        same_clock_confidence [OF that] Let_def TrustScore.simps)
  have free: "source_score (TrustEngine_calculate_trust now entity events)
                = SourceDimension_calculate entity events"
    "channel_score (TrustEngine_calculate_trust now entity events)
                = ChannelDimension_calculate entity events"
    "network_score (TrustEngine_calculate_trust now entity events)
                = NetworkDimension_calculate entity events"
    "justice_score (TrustEngine_calculate_trust now entity events)
                = JusticeDimension_calculate entity events" for now
    by (simp_all add: TrustEngine_calculate_trust_def Let_def dimension_scores_def)
  show ?thesis
    using whole by (simp only: free) blast
qed

theorem idempotent_for_same_clock_view_witness:
  "same_clock_view example_now (example_now + 1) new_user [user_event TRANSACTION POSITIVE 5 []]
   \<and> (TrustEngine_calculate_trust example_now new_user
         [user_event TRANSACTION POSITIVE 5 []]) \<lparr> calculated_at := 0 \<rparr>
     = (TrustEngine_calculate_trust (example_now + 1) new_user
         [user_event TRANSACTION POSITIVE 5 []]) \<lparr> calculated_at := 0 \<rparr>"
proof -
  have h: "same_clock_view example_now (example_now + 1) new_user
             [user_event TRANSACTION POSITIVE 5 []]"
    by (simp add: same_clock_view_def sample_defs)
  with idempotent_for_same_clock_view
         [of example_now new_user "[user_event TRANSACTION POSITIVE 5 []]" "example_now + 1" 0]
  show ?thesis by blast
qed

subsection \<open>Pattern detection\<close>


text \<open>No member of \<open>EventType\<close> is named \<open>certification\<close>, \<open>professional_development\<close> or
  \<open>training\<close>, so no TrustEvent counts for the professional pattern.\<close>

lemma professional_events_empty: "professional_events events = []"
proof -
  have "EventType_value ty \<notin> set [''certification'', ''professional_development'', ''training'']" for ty
    by (cases ty) simp_all
  then show ?thesis by (simp add: professional_events_def)
qed



text \<open>Claim C9. For every list of TrustEvent records, \<open>detect_patterns\<close> returns no pattern of
  type \<open>high_value_activity\<close>: a TrustEvent has no attribute \<open>value\<close>, so the list of
  high-value events is always empty.\<close>

theorem no_high_value_activity_pattern:
  "high_value_events events = []
   \<and> (\<forall>p \<in> set (detect_patterns entity events). pattern_type p \<noteq> ''high_value_activity'')"
  by (auto simp: high_value_events_def getattr_value_def detect_patterns_def
      dest!: in_pattern_if_more_than)

theorem no_high_value_activity_pattern_witness:
  "length (filter (\<lambda>e. EventType_value (event_type e) = ''transaction'') ten_positive_events) = 10
   \<and> high_value_events ten_positive_events = []
   \<and> list_all (\<lambda>p. pattern_type p \<noteq> ''high_value_activity'')
        (detect_patterns new_user ten_positive_events)"
  using no_high_value_activity_pattern [of ten_positive_events new_user]
  by (simp add: list_all_iff ten_positive_events_def user_event_def mk_event_def)

subsection \<open>The temporal dimension of a single event\<close>

text \<open>Claim C10. For every entity and every list of exactly one event, the consistency
  component of the temporal dimension is the fixed value 15, and the temporal score is the
  age component plus 15 plus the recency component plus the longevity component.\<close>

theorem temporal_single_event:
  "consistency_score [e] = 15
   \<and> TemporalDimension_calculate now entity [e] =
       min (real_of_int (days (now - created_at entity)) / 365 * 30) 30
       + 15
       + max 0 (20 - real_of_int (days (now - timestamp e)) / 10)
       + min (real (length (positive_events [e])) / 10 * 20) 20"
  by (simp add: TemporalDimension_calculate_def consistency_score_def age_score_def
      recency_score_def longevity_score_def Let_def)

theorem temporal_single_event_witness:
  "TemporalDimension_calculate example_now new_user [user_event TRANSACTION POSITIVE 5 []]
     = 30 + 15 + 39 / 2 + 2"
  using temporal_single_event [of "user_event TRANSACTION POSITIVE 5 []" example_now new_user]
  by (simp add: positive_events_def sample_defs)

subsection \<open>Score ranges\<close>

text \<open>The scorers that end in a clamp, and the network scorer on validated connections, stay
  within \<open>[0, 100]\<close>; the temporal scorer does so when the events are listed in chronological
  order and nothing is dated after the clock reading.\<close>

lemma source_in_range:
  "0 \<le> SourceDimension_calculate entity events \<and> SourceDimension_calculate entity events \<le> 100"
proof -
  define c where "c = min (real (length (credentials entity)) * 10) 30"
  define p where "p = min (real (length (filter
      (\<lambda>c. CredentialType_value (cred_type c) = ''professional'') (credentials entity))) * 5) 20"
  define g where "g = list_ex (\<lambda>c. CredentialType_value (cred_type c) = ''government_id'')
      (credentials entity)"
  have c: "0 \<le> c" and p: "0 \<le> p" by (simp_all add: c_def p_def)
  have "SourceDimension_calculate entity events =
          min ((if g then (if identity_verified entity then 30 else 0) + c + 20
                else (if identity_verified entity then 30 else 0) + c) + p) 100"
    unfolding SourceDimension_calculate_def Let_def c_def p_def g_def by (rule refl)
  with c p show ?thesis by simp
qed

lemma justice_in_range:
  "0 \<le> JusticeDimension_calculate entity events \<and> JusticeDimension_calculate entity events \<le> 100"
proof -
  define a where "a = min (real (length (filter (tagged_any [''community_impact'']) events)) * 10) 30"
  define b where "b = min (real (length (filter
      (tagged_any [''justice'', ''fairness'', ''equality'', ''transparency'']) events)) * 8) 25"
  define c where "c = min (real (length (filter (tagged_any [''harm_prevention'']) events)) * 5) 15"
  define d where "d = min (real (length (filter
      (\<lambda>e. EventType_value (event_type e) = ''dispute_resolution''
            \<and> Outcome_value (outcome e) = ''positive'') events)) * 10) 20"
  define t where "t = (transparency_level entity \<noteq> 0 \<and> transparency_level entity > 0.7)"
  have n: "0 \<le> a" "0 \<le> b" "0 \<le> c" "0 \<le> d" by (simp_all add: a_def b_def c_def d_def)
  have "JusticeDimension_calculate entity events =
          min (if t then a + b + c + d + 10 else a + b + c + d) 100"
    unfolding JusticeDimension_calculate_def Let_def a_def b_def c_def d_def t_def by (rule refl)
  with n show ?thesis by simp
qed

lemma clamp_range: "0 \<le> max 0 (min x 100) \<and> max 0 (min x (100::real)) \<le> 100"
  by simp

lemma outcome_in_range:
  "0 \<le> OutcomeDimension_calculate now entity events
   \<and> OutcomeDimension_calculate now entity events \<le> 100"
proof (cases "events = []")
  case True
  then show ?thesis by (simp add: OutcomeDimension_calculate_def)
next
  case False
  then show ?thesis
    by (simp only: OutcomeDimension_calculate_def Let_def if_False clamp_range)
qed

lemma sum_list_bounds:
  fixes xs :: "real list"
  assumes "\<forall>x \<in> set xs. a \<le> x \<and> x \<le> b"
  shows "a * real (length xs) \<le> sum_list xs \<and> sum_list xs \<le> b * real (length xs)"
  using assms by (induction xs) (auto simp: algebra_simps)

lemma np_mean_bounds:
  assumes "\<forall>x \<in> set xs. a \<le> x \<and> x \<le> b" and "xs \<noteq> []"
  shows "a \<le> np_mean xs \<and> np_mean xs \<le> b"
proof -
  have n: "0 < real (length xs)" using assms(2) by simp
  from sum_list_bounds [OF assms(1)] n show ?thesis
    unfolding np_mean_def by (simp add: pos_le_divide_eq pos_divide_le_eq)
qed

lemma network_in_range:
  assumes "valid_entity entity"
  shows "0 \<le> NetworkDimension_calculate entity events
         \<and> NetworkDimension_calculate entity events \<le> 100"
proof -
  define q where "q = (if connections entity \<noteq> []
                        then np_mean (map trust_score (connections entity)) * 0.4 else 0)"
  have "\<forall>x \<in> set (map trust_score (connections entity)). 0 \<le> x \<and> x \<le> 100"
    using assms by (auto simp: valid_entity_def valid_connection_def list_all_iff)
  from np_mean_bounds [OF this] have q: "0 \<le> q \<and> q \<le> 40"
    by (simp add: q_def)
  have "NetworkDimension_calculate entity events =
          min (real (length (connections entity)) / 100 * 20) 20 + q
          + min (real (length (filter (\<lambda>e. EventType_value (event_type e)
                          \<in> set [''interaction'', ''transaction'', ''collaboration'']) events))
                   / 50 * 20) 20
          + min (real (length (filter (\<lambda>e. EventType_value (event_type e) = ''endorsement''
                          \<and> Outcome_value (outcome e) = ''positive'') events)) * 5) 20"
    unfolding NetworkDimension_calculate_def Let_def q_def by (rule refl)
  with q show ?thesis
    by (simp add: min_def)
qed

lemma channel_trust_score_nonneg: "0 \<le> channel_trust_score e"
  by (simp add: channel_trust_score_def CHANNEL_TRUST_SCORES_def split: option.splits if_splits)

lemma np_linspace_nonneg: "w \<in> set (np_linspace 0.5 1.0 n) \<Longrightarrow> 0 \<le> w"
  by (auto simp: np_linspace_def split: if_splits)

lemma np_average_nonneg:
  assumes "\<forall>x \<in> set xs. 0 \<le> x" and "\<forall>w \<in> set ws. 0 \<le> w"
  shows "0 \<le> np_average xs ws"
proof -
  have "0 \<le> a * b" if "(a, b) \<in> set (zip xs ws)" for a b
    using assms set_zip_leftD [OF that] set_zip_rightD [OF that] by simp
  then have "0 \<le> sum_list (map2 (*) xs ws)"
    by (intro sum_list_nonneg) auto
  moreover have "0 \<le> sum_list ws"
    using assms(2) by (intro sum_list_nonneg) auto
  ultimately show ?thesis by (simp add: np_average_def)
qed

lemma channel_in_range:
  "0 \<le> ChannelDimension_calculate entity events \<and> ChannelDimension_calculate entity events \<le> 100"
proof (cases "events = []")
  case True
  then show ?thesis by (simp add: ChannelDimension_calculate_def)
next
  case False
  have "0 \<le> np_average (map channel_trust_score events) (np_linspace 0.5 1.0 (length events))"
    by (intro np_average_nonneg) (auto simp: channel_trust_score_nonneg np_linspace_nonneg)
  moreover have "length (np_linspace 0.5 1.0 (length events)) > 0"
    using False by (simp add: np_linspace_def)
  ultimately show ?thesis
    using False by (simp add: ChannelDimension_calculate_def Let_def min_def)
qed

lemma people_score_in_range:
  "0 \<le> PeopleScore_calculate ds entity events \<and> PeopleScore_calculate ds entity events \<le> 100"
  unfolding PeopleScore_calculate_def Let_def by (rule clamp_range)

lemma legal_score_in_range:
  "0 \<le> LegalScore_calculate ds entity events \<and> LegalScore_calculate ds entity events \<le> 100"
  unfolding LegalScore_calculate_def Let_def by (rule clamp_range)

lemma state_score_in_range:
  "0 \<le> StateScore_calculate ds entity events \<and> StateScore_calculate ds entity events \<le> 100"
  unfolding StateScore_calculate_def Let_def by (rule clamp_range)

lemma chitty_score_in_range:
  "0 \<le> ChittyScore_calculate ds entity events \<and> ChittyScore_calculate ds entity events \<le> 100"
  unfolding ChittyScore_calculate_def by (rule clamp_range)

lemma confidence_in_range:
  "0.1 \<le> calculate_confidence now events ds \<and> calculate_confidence now events ds \<le> 1.0"
proof -
  have "0.1 \<le> min (max x 0.1) 1.0 \<and> min (max x 0.1) 1.0 \<le> (1.0::real)" for x
    by simp
  then show ?thesis
    unfolding calculate_confidence_def Let_def by blast
qed

lemma days_nonneg: "a \<le> b \<Longrightarrow> 0 \<le> days (b - a)"
  by (simp add: days_def one_day_def pos_imp_zdiv_nonneg_iff)

lemma event_gaps_nonneg: "sorted ds \<Longrightarrow> g \<in> set (event_gaps ds) \<Longrightarrow> 0 \<le> g"
  by (induction ds rule: event_gaps.induct) (auto simp: days_nonneg)

lemma consistency_score_le_30:
  assumes "sorted (map timestamp events)"
  shows "0 \<le> consistency_score events \<and> consistency_score events \<le> 30"
proof (cases "event_gaps (map timestamp events) = []")
  case True
  then show ?thesis by (simp add: consistency_score_def)
next
  case False
  have "\<forall>x \<in> set (map real_of_int (event_gaps (map timestamp events))). 0 \<le> x \<and> x \<le> x"
    using event_gaps_nonneg [OF assms] by auto
  then have "\<forall>x \<in> set (map real_of_int (event_gaps (map timestamp events))). 0 \<le> x" by blast
  then have "0 \<le> sum_list (map real_of_int (event_gaps (map timestamp events)))"
    by (intro sum_list_nonneg) blast
  then have "0 \<le> np_mean (map real_of_int (event_gaps (map timestamp events)))"
    by (simp add: np_mean_def)
  with False show ?thesis by (simp add: consistency_score_def Let_def)
qed

lemma temporal_in_range_chronological:
  assumes "sorted (map timestamp events)"
    and "\<forall>e \<in> set events. timestamp e \<le> now"
    and "created_at entity \<le> now"
  shows "0 \<le> TemporalDimension_calculate now entity events
         \<and> TemporalDimension_calculate now entity events \<le> 100"
proof (cases events)
  case Nil
  then show ?thesis by (simp add: TemporalDimension_calculate_def)
next
  case (Cons e es)
  have a: "0 \<le> age_score now entity \<and> age_score now entity \<le> 30"
    using days_nonneg [OF assms(3)] by (simp add: age_score_def Let_def)
  have "timestamp (max_by_timestamp e es) \<le> now"
    using max_by_timestamp_in [of e es] assms(2) Cons by auto
  from days_nonneg [OF this]
  have r: "0 \<le> recency_score now (max_by_timestamp e es)
           \<and> recency_score now (max_by_timestamp e es) \<le> 20"
    by (simp add: recency_score_def Let_def)
  have l: "0 \<le> longevity_score events \<and> longevity_score events \<le> 20"
    by (simp add: longevity_score_def)
  from a r l consistency_score_le_30 [OF assms(1)] Cons show ?thesis
    by (simp add: TemporalDimension_calculate_def)
qed

lemma scores_in_range_chronological:
  assumes "valid_entity entity"
    and "sorted (map timestamp events)"
    and "\<forall>e \<in> set events. timestamp e \<le> now"
    and "created_at entity \<le> now"
  shows "list_all (\<lambda>x. 0 \<le> x \<and> x \<le> 100) (dimension_values (dimension_scores now entity events))"
  using source_in_range [of entity events] channel_in_range [of entity events]
    outcome_in_range [of now entity events] justice_in_range [of entity events]
    network_in_range [OF assms(1), of events]
    temporal_in_range_chronological [OF assms(2,3,4)]
  by (simp add: dimension_values_def dimension_scores_def)

text \<open>Claim C1 asks that every dimension score lies in \<open>[0, 100]\<close> and that the temporal
  scorer never returns more than 100. The persona Alice of the repository's example is a valid
  entity with valid events, listed from the newest to the oldest: the day gaps are negative,
  the consistency component is 30.6, and the temporal score is 100.6.\<close>

theorem alice_temporal_score_exceeds_100:
  "valid_entity alice \<and> list_all valid_event alice_events
   \<and> temporal_score (TrustEngine_calculate_trust example_now alice alice_events) = 503 / 5
   \<and> \<not> temporal_score (TrustEngine_calculate_trust example_now alice alice_events) \<le> 100"
proof -
  have t: "TemporalDimension_calculate example_now alice alice_events = 503 / 5"
    by (simp add: TemporalDimension_calculate_def alice_def alice_events_def mk_event_def
      age_score_def consistency_score_def recency_score_def longevity_score_def positive_events_def
      example_now_def timedelta_days_def one_day_def days_def np_mean_def)
  have v: "valid_entity alice"
    by (simp add: valid_entity_def valid_connection_def alice_def)
  have e: "list_all valid_event alice_events"
    by (simp add: valid_event_def alice_events_def mk_event_def)
  have "temporal_score (TrustEngine_calculate_trust example_now alice alice_events)
        = TemporalDimension_calculate example_now alice alice_events"
    by (simp add: TrustEngine_calculate_trust_def Let_def dimension_scores_def)
  with t v e show ?thesis by simp
qed

end
